theory Spec2Isabelle
  imports Main
begin

section \<open>JavaScript values\<close>

text \<open>
  The sagas of \<^verbatim>\<open>redux/sagas/auth.ts\<close> inspect values whose shape is only known at run
  time (response bodies, thrown values, the user and plan objects of the store), so
  these are modelled as untyped JavaScript values. Numbers are the integers (HTTP status
  codes, ids); objects are association lists read from the left.
\<close>

datatype jsval =
    Undefined
  | Null
  | Bool bool
  | Num int
  | Str string
  | Arr "jsval list"
  | Obj "(string \<times> jsval) list"

text \<open>Truthiness, as \<^verbatim>\<open>&&\<close>, \<^verbatim>\<open>||\<close>, \<^verbatim>\<open>!\<close> and \<^verbatim>\<open>if\<close> see it.\<close>

fun truthy :: "jsval \<Rightarrow> bool" where
  "truthy Undefined = False"
| "truthy Null = False"
| "truthy (Bool b) = b"
| "truthy (Num n) = (n \<noteq> 0)"
| "truthy (Str s) = (s \<noteq> [])"
| "truthy (Arr xs) = True"
| "truthy (Obj kvs) = True"

text \<open>
  Property access \<^verbatim>\<open>v.k\<close> for the property names the sources read. On a value that is
  not an object it yields \<^verbatim>\<open>undefined\<close>; the sources only read properties of
  \<^verbatim>\<open>undefined\<close> and \<^verbatim>\<open>null\<close> behind a guard or \<^verbatim>\<open>?.\<close>, except in the callback of
  \<^verbatim>\<open>onLoginFailure\<close>, where the exception is modelled.
\<close>

fun js_get :: "jsval \<Rightarrow> string \<Rightarrow> jsval" where
  "js_get (Obj kvs) k = (case map_of kvs k of Some v \<Rightarrow> v | None \<Rightarrow> Undefined)"
| "js_get v k = Undefined"

text \<open>\<^verbatim>\<open>typeof v === 'object'\<close>, \<^verbatim>\<open>Array.isArray(v)\<close>, \<^verbatim>\<open>typeof v === 'number'\<close>.\<close>

fun typeof_object :: "jsval \<Rightarrow> bool" where
  "typeof_object Null = True"
| "typeof_object (Arr xs) = True"
| "typeof_object (Obj kvs) = True"
| "typeof_object v = False"

fun isArray :: "jsval \<Rightarrow> bool" where
  "isArray (Arr xs) = True"
| "isArray v = False"

fun typeof_number :: "jsval \<Rightarrow> bool" where
  "typeof_number (Num n) = True"
| "typeof_number v = False"

text \<open>\<^verbatim>\<open>v.length\<close> of a truthy value.\<close>

fun js_length :: "jsval \<Rightarrow> jsval" where
  "js_length (Arr xs) = Num (int (length xs))"
| "js_length (Str s) = Num (int (length s))"
| "js_length v = js_get v ''length''"

section \<open>Errors, actions and effects\<close>

text \<open>
  An instance of \<^verbatim>\<open>Error\<close>: its name, its message and the further properties put on it
  (\<^verbatim>\<open>response\<close> for a GraphQL or HTTP error). A \<^verbatim>\<open>catch\<close> receives either such an
  instance or any other value.
\<close>

record js_error =
  err_name :: string
  err_message :: string
  err_props :: "(string \<times> jsval) list"

datatype thrown = ErrorInst js_error | Thrown jsval

definition new_Error :: "string \<Rightarrow> js_error" where
  "new_Error msg = \<lparr>err_name = ''Error'', err_message = msg, err_props = []\<rparr>"

text \<open>The \<^verbatim>\<open>AuthError\<close> record built in the \<^verbatim>\<open>catch\<close> of \<^verbatim>\<open>onLoginRequest\<close>.\<close>

record auth_error =
  name :: string
  message :: string
  status :: jsval
  response :: jsval

record token_details =
  td_login :: string
  td_token :: string
  td_tokenCreatedAt :: string
  td_scope :: "string list"

datatype action =
    LoginRequest string
  | LoginSuccess string jsval
  | LoginFailure auth_error
  | Logout
  | ReplacePersonalTokenDetails "token_details option"

text \<open>
  What a saga or a login helper does, in order: the effects it yields and the calls it
  makes on its collaborators. Console output is left out.
\<close>

datatype effect =
    TakeLoginSuccess
  | Reload
  | Put action
  | Delay int
  | Notify js_error
  | NotifyWith js_error string
  | DialogShow string string
  | TrackEvent string string
  | SetIsExecutingOAuth bool
  | SetPATLoadingState "string option"
  | Dispatch action

fun is_login_request :: "effect \<Rightarrow> bool" where
  "is_login_request (Put (LoginRequest t)) = True"
| "is_login_request e = False"

section \<open>The session keeper: \<^verbatim>\<open>init\<close>\<close>

text \<open>
  What the sagas read from outside: whether
  \<^verbatim>\<open>window.location.reload\<close> exists, the clock, and the built-in date parser.
  \<open>clk env l\<close> is the time read by the call of \<^verbatim>\<open>Date.now()\<close> or \<^verbatim>\<open>new Date()\<close> on line \<open>l\<close> of the
  file of the function at hand (in \<^verbatim>\<open>init\<close>, the
  two calls on lines 122/123 and the three on 134/135/137 may read different times).
  \<open>date_ms env v\<close> is \<^verbatim>\<open>new Date(v).getTime()\<close>, with \<open>None\<close> for \<^verbatim>\<open>NaN\<close>; every
  comparison with \<^verbatim>\<open>NaN\<close> is false. \<open>to_iso env t\<close> is the \<^verbatim>\<open>toISOString()\<close> of the date
  with time value \<open>t\<close>.
\<close>

record env =
  reloadable :: bool
  clk :: "nat \<Rightarrow> int"
  date_ms :: "jsval \<Rightarrow> int option"
  to_iso :: "int \<Rightarrow> string"

text \<open>The values the four selectors return from one snapshot of the store.\<close>

record keeper_state =
  appToken :: "string option"
  isLogged :: bool
  user :: jsval
  plan :: jsval

text \<open>Lines 101-106: the reload branch.\<close>

definition reload_due :: "env \<Rightarrow> keeper_state \<Rightarrow> bool" where
  "reload_due env st =
     (reloadable env \<and>
      (case date_ms env (js_get (user st) ''lastLoginAt'') of
         None \<Rightarrow> False
       | Some t \<Rightarrow> clk env 105 - t > 1000 * 60 * 60 * 48))"

text \<open>Lines 111-114: the refresh branch.\<close>

definition refresh_due :: "env \<Rightarrow> keeper_state \<Rightarrow> bool" where
  "refresh_due env st =
     (case date_ms env (js_get (user st) ''lastLoginAt'') of
        None \<Rightarrow> False
      | Some t \<Rightarrow> clk env 112 - t > 1000 * 60 * 60 * 12)"

text \<open>Lines 119-124: the plan just expired.\<close>

definition trial_just_expired :: "env \<Rightarrow> keeper_state \<Rightarrow> bool" where
  "trial_just_expired env st =
     (truthy (plan st) \<and> truthy (js_get (plan st) ''trialEndAt'') \<and>
      (case date_ms env (js_get (plan st) ''trialEndAt'') of
         None \<Rightarrow> False
       | Some e \<Rightarrow> clk env 122 \<ge> e \<and> clk env 123 - e < 1000 * 60 * 5))"

text \<open>Lines 131-136: the plan expires within the next hour.\<close>

definition trial_ends_soon :: "env \<Rightarrow> keeper_state \<Rightarrow> bool" where
  "trial_ends_soon env st =
     (truthy (plan st) \<and> truthy (js_get (plan st) ''trialEndAt'') \<and>
      (case date_ms env (js_get (plan st) ''trialEndAt'') of
         None \<Rightarrow> False
       | Some e \<Rightarrow> e > clk env 134 \<and> e - clk env 135 < 1000 * 60 * 60))"

text \<open>Lines 131-140: the final \<^verbatim>\<open>if\<close>/\<^verbatim>\<open>else\<close>, which always sleeps.\<close>

definition sleep_step :: "env \<Rightarrow> keeper_state \<Rightarrow> effect list" where
  "sleep_step env st =
     (if trial_ends_soon env st then
        (case date_ms env (js_get (plan st) ''trialEndAt'') of
           None \<Rightarrow> [Delay (1000 * 60 * 60)]
         | Some e \<Rightarrow> [Delay (clk env 137 - e + 100)])
      else [Delay (1000 * 60 * 60)])"

text \<open>
  Lines 90-140: one pass through the body of \<^verbatim>\<open>while (true)\<close>, from the \<^verbatim>\<open>select\<close> to
  the next \<^verbatim>\<open>continue\<close> or the end of the body. When the first guard waits for
  LOGIN_SUCCESS the second guard sees the same stale values and continues.
\<close>

definition init_iteration :: "env \<Rightarrow> keeper_state \<Rightarrow> effect list" where
  "init_iteration env st =
     (case appToken st of
        None \<Rightarrow> [TakeLoginSuccess]
      | Some tok \<Rightarrow>
          if \<not> (tok \<noteq> [] \<and> isLogged st \<and> truthy (user st)) then [TakeLoginSuccess]
          else if \<not> truthy (js_get (user st) ''lastLoginAt'') then []
          else if reload_due env st then Reload # sleep_step env st
          else if refresh_due env st then Put (LoginRequest tok) # sleep_step env st
          else if trial_just_expired env st then
            [Put (LoginRequest tok), Delay (1000 * 60 * 1)]
          else sleep_step env st)"

text \<open>
  Lines 86-142: the saga waits for LOGIN_SUCCESS and then loops for ever; its trace over
  the first iterations, one environment and snapshot for each.
\<close>

fun init_loop :: "(env \<times> keeper_state) list \<Rightarrow> effect list" where
  "init_loop [] = []"
| "init_loop ((env, st) # rest) = init_iteration env st @ init_loop rest"

definition init :: "(env \<times> keeper_state) list \<Rightarrow> effect list" where
  "init snaps = TakeLoginSuccess # init_loop snaps"

section \<open>Decimal rendering of numbers\<close>

text \<open>A template literal \<^verbatim>\<open>`${n}`\<close> renders an integer in decimal, with a minus sign.\<close>

definition digit_char :: "nat \<Rightarrow> char" where
  "digit_char d = ''0123456789'' ! d"

fun show_nat :: "nat \<Rightarrow> string" where
  "show_nat n = (if n < 10 then [digit_char n] else show_nat (n div 10) @ [digit_char (n mod 10)])"

declare show_nat.simps [simp del]

definition show_int :: "int \<Rightarrow> string" where
  "show_int i = (if i < 0 then CHR ''-'' # show_nat (nat (- i)) else show_nat (nat i))"

section \<open>The session exchanger: \<^verbatim>\<open>onLoginRequest\<close>\<close>

text \<open>
  The \<^verbatim>\<open>data\<close> of the response of \<^verbatim>\<open>octokit.users.getAuthenticated()\<close>, with the fields
  the saga reads; \<^verbatim>\<open>name\<close> may be null.
\<close>

record gh_user_data =
  gh_id :: int
  gh_node_id :: string
  gh_login :: string
  gh_name :: "string option"
  gh_avatar_url :: string
  gh_created_at :: string
  gh_updated_at :: string

text \<open>The response of \<^verbatim>\<open>axios.post\<close>: the HTTP status and the parsed body.\<close>

record http_response =
  resp_status :: int
  resp_data :: jsval

text \<open>\<^verbatim>\<open>response.data.name || response.data.login\<close>.\<close>

fun name_or_login :: "string option \<Rightarrow> string \<Rightarrow> string" where
  "name_or_login None l = l"
| "name_or_login (Some n) l = (if n \<noteq> [] then n else l)"

text \<open>
  Lines 166-221: the user record of local-only mode. \<open>now l\<close> stands for
  \<^verbatim>\<open>new Date().toISOString()\<close> on line \<open>l\<close>.
\<close>

definition local_user :: "bool \<Rightarrow> env \<Rightarrow> string \<Rightarrow> gh_user_data \<Rightarrow> jsval" where
  "local_user local_only env tok d =
     (let now = (\<lambda>l. Str (to_iso env (clk env l))) in
      Obj
       [(''_id'', Str (''github_'' @ show_int (gh_id d))),
        (''github'', Obj
          [(''personal'', Obj
             [(''token'', Str tok),
              (''scope'', Arr [Str ''repo'']),
              (''tokenType'', Str ''bearer''),
              (''tokenCreatedAt'', now 173),
              (''login'', Str (gh_login d))]),
           (''user'', Obj
             [(''id'', Num (gh_id d)),
              (''nodeId'', Str (gh_node_id d)),
              (''login'', Str (gh_login d)),
              (''name'', Str (name_or_login (gh_name d) (gh_login d))),
              (''avatarUrl'', Str (gh_avatar_url d)),
              (''createdAt'', Str (gh_created_at d)),
              (''updatedAt'', Str (gh_updated_at d))])]),
        (''plan'', Obj
          [(''id'', Str ''free''),
           (''source'', Str ''none''),
           (''type'', Undefined),
           (''status'', Str ''active''),
           (''amount'', Num 0),
           (''currency'', Str ''usd''),
           (''trialPeriodDays'', Num 0),
           (''intervalCount'', Num 0),
           (''label'', Str ''Free''),
           (''interval'', Undefined),
           (''quantity'', Undefined),
           (''startAt'', now 198),
           (''cancelAt'', Undefined),
           (''cancelAtPeriodEnd'', Bool False),
           (''trialStartAt'', Undefined),
           (''trialEndAt'', Undefined),
           (''currentPeriodStartAt'', now 203),
           (''currentPeriodEndAt'', Undefined),
           (''last4'', Undefined),
           (''reason'', Undefined),
           (''users'', Undefined),
           (''featureFlags'', Obj
             [(''columnsLimit'', Num (if local_only then 999 else - 1)),
              (''enableFilters'', Bool True),
              (''enableSync'', Bool False),
              (''enablePrivateRepositories'', Bool True),
              (''enablePushNotifications'', Bool False)]),
           (''createdAt'', now 215),
           (''updatedAt'', now 216)]),
        (''createdAt'', now 218),
        (''updatedAt'', now 219),
        (''lastLoginAt'', now 220)])"

text \<open>
  Lines 159-224: the body of the \<^verbatim>\<open>try\<close> in local-only mode, given how the call to GitHub
  ended: rejected with a thrown value, or resolved with \<^verbatim>\<open>data\<close> (\<open>None\<close> when falsy).
\<close>

definition login_local ::
  "bool \<Rightarrow> env \<Rightarrow> string \<Rightarrow> thrown + gh_user_data option \<Rightarrow> thrown + effect list" where
  "login_local local_only env tok r =
     (case r of
        Inl e \<Rightarrow> Inl e
      | Inr None \<Rightarrow> Inl (ErrorInst (new_Error ''Invalid response from GitHub API''))
      | Inr (Some d) \<Rightarrow> Inr [Put (LoginSuccess tok (local_user local_only env tok d))])"

text \<open>Lines 57-69.\<close>

definition createGraphQLError :: "string \<Rightarrow> jsval \<Rightarrow> int \<Rightarrow> jsval \<Rightarrow> js_error" where
  "createGraphQLError msg data st errors =
     \<lparr>err_name = ''Error'', err_message = msg,
      err_props =
        [(''response'', Obj
           [(''data'', Obj
              [(''errors'',
                if truthy errors then errors
                else Arr [Obj [(''message'', Str ''Unknown GraphQL error'')]])]),
            (''status'', Num st)])]\<rparr>"

text \<open>
  The \<^verbatim>\<open>TypeError\<close> of destructuring or reading a property of \<^verbatim>\<open>undefined\<close> or
  \<^verbatim>\<open>null\<close>; its message depends on the engine and is left empty.
\<close>

definition type_error :: js_error where
  "type_error = \<lparr>err_name = ''TypeError'', err_message = [], err_props = []\<rparr>"

text \<open>Lines 358-369: the response holds a login with a token and a user with a GitHub id.\<close>

definition login_complete :: "jsval \<Rightarrow> bool" where
  "login_complete data =
     (truthy data \<and>
      truthy (js_get data ''login'') \<and>
      truthy (js_get (js_get data ''login'') ''appToken'') \<and>
      truthy (js_get (js_get data ''login'') ''user'') \<and>
      truthy (js_get (js_get (js_get data ''login'') ''user'') ''github'') \<and>
      truthy (js_get (js_get (js_get (js_get data ''login'') ''user'') ''github'') ''user'') \<and>
      truthy (js_get (js_get (js_get (js_get (js_get data ''login'') ''user'') ''github'')
                ''user'') ''id''))"

text \<open>
  Lines 228-373: the body of the \<^verbatim>\<open>try\<close> in backend mode, given how \<^verbatim>\<open>axios.post\<close> ended.
  The token put with LOGIN_SUCCESS is the \<^verbatim>\<open>appToken\<close> of the request's payload.
\<close>

definition login_backend :: "string \<Rightarrow> thrown + http_response \<Rightarrow> thrown + effect list" where
  "login_backend tok r =
     (case r of
        Inl e \<Rightarrow> Inl e
      | Inr resp \<Rightarrow>
          if resp_data resp = Undefined \<or> resp_data resp = Null then Inl (ErrorInst type_error)
          else
            (let data = js_get (resp_data resp) ''data'';
                 errors = js_get (resp_data resp) ''errors''
             in if truthy errors \<and> truthy (js_length errors) then
                  Inl (ErrorInst
                    (createGraphQLError ''GraphQL Error'' (resp_data resp) (resp_status resp) errors))
                else if \<not> login_complete data then
                  Inl (ErrorInst (new_Error ''Invalid response''))
                else
                  Inr [Put (LoginSuccess tok (js_get (js_get data ''login'') ''user''))]))"

section \<open>The error normalizer\<close>

text \<open>A thrown value seen as an object: \<^verbatim>\<open>error && typeof error === 'object'\<close> and \<^verbatim>\<open>error.k\<close>.\<close>

fun thrown_is_object :: "thrown \<Rightarrow> bool" where
  "thrown_is_object (ErrorInst e) = True"
| "thrown_is_object (Thrown v) = (truthy v \<and> typeof_object v)"

fun thrown_get :: "thrown \<Rightarrow> string \<Rightarrow> jsval" where
  "thrown_get (ErrorInst e) k =
     (if k = ''name'' then Str (err_name e)
      else if k = ''message'' then Str (err_message e)
      else (case map_of (err_props e) k of Some v \<Rightarrow> v | None \<Rightarrow> Undefined))"
| "thrown_get (Thrown v) k = js_get v k"

text \<open>Lines 71-84.\<close>

definition isGraphQLErrorResponse :: "thrown \<Rightarrow> bool" where
  "isGraphQLErrorResponse error =
     (if \<not> thrown_is_object error then False
      else
        (let r = thrown_get error ''response'' in
         truthy r \<and> typeof_object r \<and>
         truthy (js_get r ''data'') \<and> typeof_object (js_get r ''data'') \<and>
         truthy (js_get (js_get r ''data'') ''errors'') \<and>
         isArray (js_get (js_get r ''data'') ''errors'') \<and>
         typeof_number (js_get r ''status'')))"

text \<open>Line 376: \<^verbatim>\<open>error instanceof Error ? error : new Error('Unknown error')\<close>.\<close>

fun to_Error :: "thrown \<Rightarrow> js_error" where
  "to_Error (ErrorInst e) = e"
| "to_Error (Thrown v) = new_Error ''Unknown error''"

text \<open>Lines 379-384.\<close>

definition auth_error_of :: "thrown \<Rightarrow> auth_error" where
  "auth_error_of error =
     \<lparr>name = err_name (to_Error error),
      message = err_message (to_Error error),
      status =
        (if isGraphQLErrorResponse error then js_get (thrown_get error ''response'') ''status''
         else Undefined),
      response =
        (if isGraphQLErrorResponse error then js_get (thrown_get error ''response'') ''data''
         else Undefined)\<rparr>"

text \<open>Lines 374-387: the \<^verbatim>\<open>catch\<close> block.\<close>

definition login_catch :: "thrown \<Rightarrow> effect list" where
  "login_catch error = [Notify (to_Error error), Put (LoginFailure (auth_error_of error))]"

text \<open>
  Lines 151-388. \<open>local_only\<close> is \<^verbatim>\<open>constants.LOCAL_ONLY_PERSONAL_ACCESS_TOKEN\<close>; \<open>gh\<close> and
  \<open>post\<close> say how the call to GitHub and the call to the backend end, if made.
\<close>

definition onLoginRequest ::
  "bool \<Rightarrow> env \<Rightarrow> string \<Rightarrow> thrown + gh_user_data option \<Rightarrow> thrown + http_response
     \<Rightarrow> effect list" where
  "onLoginRequest local_only env tok gh post =
     (case (if local_only then login_local local_only env tok gh else login_backend tok post) of
        Inr effs \<Rightarrow> effs
      | Inl error \<Rightarrow> login_catch error)"

section \<open>The event reactor: \<^verbatim>\<open>onLoginFailure\<close>\<close>

text \<open>Lines 444-445: the callback of \<^verbatim>\<open>some\<close>, on an element that is not nullish.\<close>

definition tagged_unauthenticated :: "jsval \<Rightarrow> bool" where
  "tagged_unauthenticated e =
     (truthy (js_get e ''extensions'') \<and>
      js_get (js_get e ''extensions'') ''code'' = Str ''UNAUTHENTICATED'')"

text \<open>
  \<^verbatim>\<open>errors.some(...)\<close>: it stops at the first tagged element, and reading
  \<^verbatim>\<open>e.extensions\<close> of an element that is \<^verbatim>\<open>undefined\<close> or \<^verbatim>\<open>null\<close> throws.
\<close>

fun some_unauthenticated :: "jsval list \<Rightarrow> thrown + bool" where
  "some_unauthenticated [] = Inr False"
| "some_unauthenticated (e # es) =
     (if e = Undefined \<or> e = Null then Inl (ErrorInst type_error)
      else if tagged_unauthenticated e then Inr True
      else some_unauthenticated es)"

fun elements :: "jsval \<Rightarrow> jsval list" where
  "elements (Arr xs) = xs"
| "elements v = []"

text \<open>Lines 433-450; \<open>None\<close> is an action without \<^verbatim>\<open>error\<close>.\<close>

definition onLoginFailure :: "auth_error option \<Rightarrow> thrown + effect list" where
  "onLoginFailure err =
     (case err of
        None \<Rightarrow> Inr []
      | Some e \<Rightarrow>
          if status e = Num 401 then Inr [Put Logout]
          else if \<not> truthy (response e) then Inr []
          else if js_get (response e) ''status'' = Num 401 then Inr [Put Logout]
          else if \<not> truthy (js_get (response e) ''data'') then Inr []
          else if \<not> isArray (js_get (js_get (response e) ''data'') ''errors'') then Inr []
          else
            (case some_unauthenticated (elements (js_get (js_get (response e) ''data'') ''errors'')) of
               Inl t \<Rightarrow> Inl t
             | Inr found \<Rightarrow> if found then Inr [Put Logout] else Inr []))"

text \<open>The effects a saga yielded before it returned or threw.\<close>

fun yielded :: "thrown + effect list \<Rightarrow> effect list" where
  "yielded (Inr effs) = effs"
| "yielded (Inl t) = []"

text \<open>Concrete inputs: a date parser that knows two strings, and a logged-in snapshot.\<close>

definition demo_dates :: "int \<Rightarrow> int \<Rightarrow> jsval \<Rightarrow> int option" where
  "demo_dates l e v =
     (if v = Str ''last-login'' then Some l
      else if v = Str ''trial-end'' then Some e
      else None)"

definition demo_env :: "bool \<Rightarrow> int \<Rightarrow> int \<Rightarrow> int \<Rightarrow> env" where
  "demo_env r now l e = \<lparr>reloadable = r, clk = (\<lambda>line. now), date_ms = demo_dates l e,
      to_iso = (\<lambda>t. ''iso'')\<rparr>"

definition demo_state :: keeper_state where
  "demo_state =
     \<lparr>appToken = Some ''tok'', isLogged = True,
      user = Obj [(''lastLoginAt'', Str ''last-login'')],
      plan = Obj [(''trialEndAt'', Str ''trial-end'')]\<rparr>"

section \<open>The login helpers: \<^verbatim>\<open>LoginHelpersContext.tsx\<close>\<close>

text \<open>
  Lines 73-89: \<^verbatim>\<open>handleAuthError\<close>. A thrown value that is not an \<^verbatim>\<open>Error\<close> becomes one, with
  the value as message when it is a string. The crash reporter is notified before the
  message is looked at.
\<close>

fun helper_Error :: "thrown \<Rightarrow> js_error" where
  "helper_Error (ErrorInst e) = e"
| "helper_Error (Thrown (Str s)) = new_Error s"
| "helper_Error (Thrown v) = new_Error ''Unknown error''"

definition handleAuthError :: "thrown \<Rightarrow> string \<Rightarrow> effect list" where
  "handleAuthError error description =
     NotifyWith (helper_Error error) description #
     (if err_message (helper_Error error) = ''Canceled''
         \<or> err_message (helper_Error error) = ''Timeout''
      then []
      else [DialogShow ''Login failed'' (err_message (helper_Error error))])"

text \<open>
  What the token validation reads of the response of \<^verbatim>\<open>GET /user\<close>: the id and the login
  of \<^verbatim>\<open>response.data\<close> (\<open>None\<close> when missing) and the \<^verbatim>\<open>x-oauth-scopes\<close> header. GitHub ids
  are numbers.
\<close>

record identity_response =
  ir_id :: "int option"
  ir_login :: "string option"
  ir_scopes :: "string option"

text \<open>
  What the helper reads of the backend's answer to \<^verbatim>\<open>loginWithPersonalAccessToken\<close>: the
  messages of the entries of \<^verbatim>\<open>errors\<close> (none when absent) and the \<^verbatim>\<open>appToken\<close>.
\<close>

record pat_login_response =
  plr_errors :: "string option list"
  plr_appToken :: "string option"

text \<open>
  Lines 243-246: the scopes of the header. \<^verbatim>\<open>\s\<close> matches, among the characters of a
  header, tab, line feed, vertical tab, form feed, carriage return, space and no-break
  space. \<^verbatim>\<open>''.split(',')\<close> is \<^verbatim>\<open>['']\<close>.
\<close>

definition is_space :: "char \<Rightarrow> bool" where
  "is_space c =
     (c \<in> set [CHR 0x09, CHR 0x0A, CHR 0x0B, CHR 0x0C, CHR 0x0D, CHR '' '', CHR 0xA0])"

fun split_commas :: "string \<Rightarrow> string list" where
  "split_commas [] = [[]]"
| "split_commas (c # cs) =
     (if c = CHR '','' then [] # split_commas cs
      else (case split_commas cs of
              [] \<Rightarrow> [[c]]
            | w # ws \<Rightarrow> (c # w) # ws))"

fun header_or_empty :: "string option \<Rightarrow> string" where
  "header_or_empty None = []"
| "header_or_empty (Some h) = h"

definition parse_scopes :: "string option \<Rightarrow> string list" where
  "parse_scopes h =
     filter (\<lambda>s. s \<noteq> []) (split_commas (filter (\<lambda>c. \<not> is_space c) (header_or_empty h)))"

text \<open>
  The same parse in the order of the specification's words: split on commas, strip
  (remove every whitespace character of) each entry, drop the empty entries.
\<close>

definition parse_scopes_spec :: "string option \<Rightarrow> string list" where
  "parse_scopes_spec h =
     filter (\<lambda>s. s \<noteq> [])
       (map (filter (\<lambda>c. \<not> is_space c)) (split_commas (header_or_empty h)))"

text \<open>\<^verbatim>\<open>`${loggedGitHubUsername}`\<close> of a name that may be undefined.\<close>

fun name_text :: "string option \<Rightarrow> string" where
  "name_text None = ''undefined''"
| "name_text (Some n) = n"

text \<open>Lines 233-240 and 249-253: the two messages.\<close>

definition different_user_message ::
  "int \<Rightarrow> string \<Rightarrow> int \<Rightarrow> string option \<Rightarrow> string" where
  "different_user_message rid rlogin lid lname =
     ''This Personal Access Token seems to be from a different user''
     @ (if Some rlogin \<noteq> lname
        then '' ('' @ rlogin @ '' instead of '' @ name_text lname @ '')''
        else '' (ID '' @ show_int rid @ '' instead of '' @ show_int lid @ '')'')
     @ ''.''"

definition missing_repo_message :: string where
  "missing_repo_message =
     ''You didn't include the '' @ [CHR 0x22] @ ''repo'' @ [CHR 0x22] @ '' permission scope,''
     @ '' which is required to have access to private repositories.''
     @ '' Your token will be safe on your device, and will never be sent to DevHub's server.''"

text \<open>
  Lines 225-254: the checks on the response of \<^verbatim>\<open>GET /user\<close>, which throw or leave the
  login and the parsed scopes. \<open>lid\<close> and \<open>lname\<close> are \<^verbatim>\<open>loggedGitHubUserId\<close> and
  \<^verbatim>\<open>loggedGitHubUsername\<close>.
\<close>

definition id_mismatch :: "int option \<Rightarrow> int \<Rightarrow> bool" where
  "id_mismatch lid rid =
     (case lid of None \<Rightarrow> False | Some l \<Rightarrow> l \<noteq> 0 \<and> show_int rid \<noteq> show_int l)"

fun logged_id :: "int option \<Rightarrow> int" where
  "logged_id None = 0"
| "logged_id (Some l) = l"

definition validate_token ::
  "int option \<Rightarrow> string option \<Rightarrow> identity_response \<Rightarrow> thrown + string \<times> string list" where
  "validate_token lid lname r =
     (case ir_id r of
        None \<Rightarrow> Inl (ErrorInst (new_Error ''Invalid response from GitHub API''))
      | Some rid \<Rightarrow>
         (case ir_login r of
            None \<Rightarrow> Inl (ErrorInst (new_Error ''Invalid response from GitHub API''))
          | Some rlogin \<Rightarrow>
              if \<not> (rid \<noteq> 0 \<and> rlogin \<noteq> []) then
                Inl (ErrorInst (new_Error ''Invalid response from GitHub API''))
              else if id_mismatch lid rid then
                Inl (ErrorInst (new_Error
                  (different_user_message rid rlogin (logged_id lid) lname)))
              else if parse_scopes (ir_scopes r) \<noteq> []
                      \<and> ''repo'' \<notin> set (parse_scopes (ir_scopes r)) then
                Inl (ErrorInst (new_Error missing_repo_message))
              else Inr (rlogin, parse_scopes (ir_scopes r))))"

text \<open>Lines 289-303: the exchange with the backend, which throws or dispatches.\<close>

fun first_message :: "string option list \<Rightarrow> string" where
  "first_message (Some m # ms) = (if m \<noteq> [] then m else ''GraphQL Error'')"
| "first_message ms = ''GraphQL Error''"

definition exchange_token :: "pat_login_response \<Rightarrow> thrown + effect list" where
  "exchange_token r =
     (if plr_errors r \<noteq> [] then Inl (ErrorInst (new_Error (first_message (plr_errors r))))
      else (case plr_appToken r of
              None \<Rightarrow> Inl (ErrorInst (new_Error ''Invalid response''))
            | Some t \<Rightarrow>
                if t = [] then Inl (ErrorInst (new_Error ''Invalid response''))
                else Inr [Dispatch (LoginRequest t)]))"

text \<open>
  Lines 256-307: what follows the checks. In local-only mode the token is stored and used
  as the application token; otherwise it is exchanged (\<open>post\<close> says how \<^verbatim>\<open>axios.post\<close>
  ended).
\<close>

definition adopt_token ::
  "bool \<Rightarrow> env \<Rightarrow> string \<Rightarrow> string \<Rightarrow> string list \<Rightarrow> thrown + pat_login_response
     \<Rightarrow> thrown + effect list" where
  "adopt_token local_only env token rlogin scope post =
     (if local_only then
        Inr [Dispatch (ReplacePersonalTokenDetails
               (Some \<lparr>td_login = rlogin, td_token = token,
                       td_tokenCreatedAt = to_iso env (clk env 263), td_scope = scope\<rparr>)),
             Dispatch (LoginRequest token)]
      else (case post of Inl e \<Rightarrow> Inl e | Inr r \<Rightarrow> exchange_token r))"

text \<open>The \<^verbatim>\<open>catch\<close> of lines 308-312, after the effects \<open>pre\<close> of the \<^verbatim>\<open>try\<close>.\<close>

definition pat_failed :: "effect list \<Rightarrow> thrown \<Rightarrow> effect list" where
  "pat_failed pre error =
     pre @ handleAuthError error ''Personal access token login failed''
         @ [SetIsExecutingOAuth False, SetPATLoadingState None]"

text \<open>
  Lines 208-312: \<^verbatim>\<open>loginWithGitHubPersonalAccessToken\<close>. \<open>prompted\<close> is what the prompt
  resolves to, \<open>got\<close> how \<^verbatim>\<open>GET /user\<close> ended, \<open>post\<close> how the exchange with the backend
  ended, if made.
\<close>

definition loginWithGitHubPersonalAccessToken ::
  "bool \<Rightarrow> env \<Rightarrow> int option \<Rightarrow> string option \<Rightarrow> string option
     \<Rightarrow> thrown + identity_response \<Rightarrow> thrown + pat_login_response \<Rightarrow> effect list" where
  "loginWithGitHubPersonalAccessToken local_only env lid lname prompted got post =
     (case prompted of
        None \<Rightarrow> pat_failed [TrackEvent ''engagement'' ''login''] (ErrorInst (new_Error ''Canceled''))
      | Some token \<Rightarrow>
          if token = [] then
            pat_failed [TrackEvent ''engagement'' ''login''] (ErrorInst (new_Error ''Canceled''))
          else
            (let pre = [TrackEvent ''engagement'' ''login'', SetIsExecutingOAuth True,
                        SetPATLoadingState (Some ''adding'')]
             in case got of
                  Inl e \<Rightarrow> pat_failed pre e
                | Inr r \<Rightarrow>
                   (case validate_token lid lname r of
                      Inl e \<Rightarrow> pat_failed pre e
                    | Inr (rlogin, scope) \<Rightarrow>
                       (case adopt_token local_only env token rlogin scope post of
                          Inl e \<Rightarrow> pat_failed pre e
                        | Inr effs \<Rightarrow>
                            pre @ effs @ [SetIsExecutingOAuth False, SetPATLoadingState None]))))"

fun is_dispatch :: "effect \<Rightarrow> bool" where
  "is_dispatch (Dispatch a) = True"
| "is_dispatch e = False"

fun is_dialog :: "effect \<Rightarrow> bool" where
  "is_dialog (DialogShow t m) = True"
| "is_dialog e = False"

fun is_notify :: "effect \<Rightarrow> bool" where
  "is_notify (NotifyWith e d) = True"
| "is_notify (Notify e) = True"
| "is_notify e = False"

text \<open>\<^verbatim>\<open>AuthError\<close>s of the LOGIN_FAILURE actions among some effects.\<close>

fun login_failures :: "effect list \<Rightarrow> auth_error list" where
  "login_failures [] = []"
| "login_failures (Put (LoginFailure a) # effs) = a # login_failures effs"
| "login_failures (e # effs) = login_failures effs"

text \<open>
  For each LOGIN_FAILURE among some effects, the status of its \<^verbatim>\<open>AuthError\<close> and the
  \<^verbatim>\<open>errors\<close> of its response.
\<close>

definition failure_summary :: "effect list \<Rightarrow> (jsval \<times> jsval) list" where
  "failure_summary effs =
     map (\<lambda>a. (status a, js_get (response a) ''errors'')) (login_failures effs)"

text \<open>
  Concrete inputs: a backend response with a complete login, whose token differs from the
  request's; a body with one GraphQL error, once in an HTTP 200 response, with which
  \<^verbatim>\<open>axios.post\<close> resolves, and once in an HTTP 401 response, with which \<^verbatim>\<open>axios.post\<close>
  rejects (an \<^verbatim>\<open>AxiosError\<close> whose \<^verbatim>\<open>response\<close> holds the body and the status); a rejection
  with an HTTP 500 whose body has an empty \<^verbatim>\<open>errors\<close> array; the response of
  \<^verbatim>\<open>GET /user\<close> for the user \<open>bob\<close> with a given scopes header; the data of a GitHub user.
\<close>

definition demo_login_body :: jsval where
  "demo_login_body =
     Obj [(''data'', Obj [(''login'', Obj
       [(''appToken'', Str ''fresh''),
        (''user'', Obj [(''github'', Obj [(''user'', Obj [(''id'', Num 7)])])])])])]"

definition demo_errors :: "jsval list" where
  "demo_errors = [Obj [(''message'', Str ''boom'')]]"

definition demo_error_body :: jsval where
  "demo_error_body = Obj [(''data'', Null), (''errors'', Arr demo_errors)]"

definition demo_error_response :: http_response where
  "demo_error_response = \<lparr>resp_status = 200, resp_data = demo_error_body\<rparr>"

definition demo_rejected_response :: thrown where
  "demo_rejected_response =
     ErrorInst
       \<lparr>err_name = ''AxiosError'', err_message = ''Request failed with status code 401'',
        err_props = [(''response'', Obj [(''data'', demo_error_body), (''status'', Num 401)])]\<rparr>"

definition demo_axios_error :: thrown where
  "demo_axios_error =
     ErrorInst
       \<lparr>err_name = ''AxiosError'', err_message = ''Request failed with status code 500'',
        err_props =
          [(''response'', Obj [(''data'', Obj [(''errors'', Arr [])]), (''status'', Num 500)])]\<rparr>"

definition demo_identity :: "string \<Rightarrow> identity_response" where
  "demo_identity h = \<lparr>ir_id = Some 6, ir_login = Some ''bob'', ir_scopes = Some h\<rparr>"

definition demo_gh_data :: gh_user_data where
  "demo_gh_data =
     \<lparr>gh_id = 42, gh_node_id = ''node'', gh_login = ''octo'', gh_name = None,
      gh_avatar_url = ''avatar'', gh_created_at = ''created'', gh_updated_at = ''updated''\<rparr>"

section \<open>Properties of the session keeper\<close>

lemma sleep_step_single: "\<exists>d. sleep_step env st = [Delay d]"
  by (simp add: sleep_step_def split: option.split)

lemma sleep_step_soon:
  assumes "truthy (plan st)" and "truthy (js_get (plan st) ''trialEndAt'')"
    and "date_ms env (js_get (plan st) ''trialEndAt'') = Some e"
    and "e > clk env 134" and "e - clk env 135 < 1000 * 60 * 60"
  shows "sleep_step env st = [Delay (clk env 137 - e + 100)]"
  using assms by (simp add: sleep_step_def trial_ends_soon_def)

text \<open>
  C1. With \<open>trialEndAt\<close> thirty minutes ahead of a clock that reads 1000000000 at every
  call, and none of the three earlier branches firing, the iteration yields
  \<^verbatim>\<open>delay(Date.now() - trialEndAt + 100)\<close>, which is -1799900 and not the 1800100 ms that
  reach 100 ms past the trial's end.
\<close>

theorem trial_soon_delay_evaluated:
  "init_iteration (demo_env False 1000000000 999999000 1001800000) demo_state
     = [Delay (- 1799900)]"
  by (simp add: init_iteration_def demo_env_def demo_state_def demo_dates_def
      reload_due_def refresh_due_def trial_just_expired_def sleep_step_def
      trial_ends_soon_def)

text \<open>
  The same for every input of the branch: the delay is the clock minus \<open>trialEndAt\<close> plus
  100, below 100 ms whenever the clock does not run backwards between lines 134 and 137.
\<close>

lemma trial_soon_delay_general:
  assumes "appToken st = Some tok" and "tok \<noteq> []" and "isLogged st" and "truthy (user st)"
    and "truthy (js_get (user st) ''lastLoginAt'')"
    and "\<not> reload_due env st" and "\<not> refresh_due env st" and "\<not> trial_just_expired env st"
    and "truthy (plan st)" and "truthy (js_get (plan st) ''trialEndAt'')"
    and "date_ms env (js_get (plan st) ''trialEndAt'') = Some e"
    and "e > clk env 134" and "e - clk env 135 < 1000 * 60 * 60"
  shows "init_iteration env st = [Delay (clk env 137 - e + 100)]"
  using assms sleep_step_soon [of st env e] by (simp add: init_iteration_def)

text \<open>
  C5. When the environment is not reloadable and more than 12 hours have passed since
  \<open>lastLoginAt\<close>, the iteration puts exactly one login request, carrying the current
  application token, and then runs the final delay computation, which yields one delay.
  Nothing is assumed about the plan, so this holds also when the trial has just expired.
\<close>

theorem refresh_after_12h:
  assumes "appToken st = Some tok" and "tok \<noteq> []" and "isLogged st" and "truthy (user st)"
    and "truthy (js_get (user st) ''lastLoginAt'')"
    and "date_ms env (js_get (user st) ''lastLoginAt'') = Some t"
    and "\<not> reloadable env"
    and "clk env 112 - t > 1000 * 60 * 60 * 12"
  shows "init_iteration env st = Put (LoginRequest tok) # sleep_step env st
       \<and> length (filter is_login_request (init_iteration env st)) = 1
       \<and> (\<exists>d. sleep_step env st = [Delay d])"
proof -
  have not_reload: "\<not> reload_due env st"
    using assms(7) by (simp add: reload_due_def)
  have refresh: "refresh_due env st"
    using assms(6,8) by (simp add: refresh_due_def)
  have shape: "init_iteration env st = Put (LoginRequest tok) # sleep_step env st"
    using assms(1-5) not_reload refresh by (simp add: init_iteration_def)
  obtain d where d: "sleep_step env st = [Delay d]"
    using sleep_step_single by blast
  show ?thesis
    using shape d by simp
qed

theorem refresh_after_12h_witness:
  "trial_just_expired (demo_env False 1000000000 950000000 999900000) demo_state
   \<and> init_iteration (demo_env False 1000000000 950000000 999900000) demo_state
       = [Put (LoginRequest ''tok''), Delay 3600000]"
proof -
  have expired: "trial_just_expired (demo_env False 1000000000 950000000 999900000) demo_state"
    by (simp add: trial_just_expired_def demo_env_def demo_state_def demo_dates_def)
  have sleep: "sleep_step (demo_env False 1000000000 950000000 999900000) demo_state
      = [Delay 3600000]"
    by (simp add: sleep_step_def trial_ends_soon_def demo_env_def demo_state_def demo_dates_def)
  have "init_iteration (demo_env False 1000000000 950000000 999900000) demo_state
      = Put (LoginRequest ''tok'')
        # sleep_step (demo_env False 1000000000 950000000 999900000) demo_state"
    using refresh_after_12h [of demo_state "''tok''"
        "demo_env False 1000000000 950000000 999900000" 950000000]
    by (simp add: demo_env_def demo_state_def demo_dates_def)
  then show ?thesis
    using expired sleep by simp
qed

text \<open>
  C6. When neither the reload branch nor the refresh branch fires and the plan's
  \<open>trialEndAt\<close> has passed less than 5 minutes ago, the iteration puts one login request
  carrying the current application token, sleeps one minute and ends there: the final
  delay computation is not reached, and the loop goes on with the next iteration.
\<close>

theorem trial_just_expired_step:
  assumes "appToken st = Some tok" and "tok \<noteq> []" and "isLogged st" and "truthy (user st)"
    and "truthy (js_get (user st) ''lastLoginAt'')"
    and "\<not> reload_due env st" and "\<not> refresh_due env st"
    and "truthy (plan st)" and "truthy (js_get (plan st) ''trialEndAt'')"
    and "date_ms env (js_get (plan st) ''trialEndAt'') = Some e"
    and "clk env 122 \<ge> e" and "clk env 123 - e < 1000 * 60 * 5"
  shows "init_iteration env st = [Put (LoginRequest tok), Delay (1000 * 60 * 1)]
       \<and> init_loop ((env, st) # rest)
           = [Put (LoginRequest tok), Delay (1000 * 60 * 1)] @ init_loop rest"
proof -
  have "trial_just_expired env st"
    using assms(8-12) by (simp add: trial_just_expired_def)
  then have "init_iteration env st = [Put (LoginRequest tok), Delay (1000 * 60 * 1)]"
    using assms(1-7) by (simp add: init_iteration_def)
  then show ?thesis
    by simp
qed

theorem trial_just_expired_step_witness:
  "init_iteration (demo_env True 1000000000 999000000 999880000) demo_state
     = [Put (LoginRequest ''tok''), Delay 60000]
   \<and> init_loop [(demo_env True 1000000000 999000000 999880000, demo_state)]
     = [Put (LoginRequest ''tok''), Delay 60000]"
  using trial_just_expired_step [of demo_state "''tok''"
      "demo_env True 1000000000 999000000 999880000" 999880000 "[]"]
  by (simp add: demo_env_def demo_state_def demo_dates_def reload_due_def refresh_due_def)

section \<open>Properties of the session exchanger\<close>

lemma backend_success:
  assumes "body \<noteq> Undefined" and "body \<noteq> Null"
    and "\<not> (truthy (js_get body ''errors'') \<and> truthy (js_length (js_get body ''errors'')))"
    and "login_complete (js_get body ''data'')"
  shows "onLoginRequest False env tok gh (Inr \<lparr>resp_status = st, resp_data = body\<rparr>)
       = [Put (LoginSuccess tok (js_get (js_get (js_get body ''data'') ''login'') ''user''))]"
  using assms by (auto simp add: onLoginRequest_def login_backend_def Let_def)

lemma backend_invalid_response:
  assumes "body \<noteq> Undefined" and "body \<noteq> Null"
    and "\<not> (truthy (js_get body ''errors'') \<and> truthy (js_length (js_get body ''errors'')))"
    and "\<not> login_complete (js_get body ''data'')"
  shows "onLoginRequest False env tok gh (Inr \<lparr>resp_status = st, resp_data = body\<rparr>)
       = [Notify (new_Error ''Invalid response''),
          Put (LoginFailure \<lparr>name = ''Error'', message = ''Invalid response'',
                 status = Undefined, response = Undefined\<rparr>)]"
  using assms
  by (auto simp add: onLoginRequest_def login_backend_def login_catch_def auth_error_of_def
      isGraphQLErrorResponse_def new_Error_def Let_def)

text \<open>
  C2. A request with the token \<open>stale\<close> is answered by a response with a complete login
  whose \<open>appToken\<close> is \<open>fresh\<close>: the LOGIN_SUCCESS action carries the user of the response
  and the token \<open>stale\<close> of the request, not the token of the response.
\<close>

theorem exchange_token_evaluated:
  "onLoginRequest False env ''stale'' gh (Inr \<lparr>resp_status = 200, resp_data = demo_login_body\<rparr>)
     = [Put (LoginSuccess ''stale''
          (js_get (js_get (js_get demo_login_body ''data'') ''login'') ''user''))]
   \<and> js_get (js_get (js_get demo_login_body ''data'') ''login'') ''appToken'' = Str ''fresh''"
  by (simp add: onLoginRequest_def login_backend_def demo_login_body_def login_complete_def)

section \<open>Properties of the error normalizer\<close>

lemma isArray_js_get: "isArray (js_get v k) \<Longrightarrow> truthy v \<and> typeof_object v"
  by (cases v) auto

lemma isArray_truthy: "isArray v \<Longrightarrow> truthy v"
  by (cases v) auto

text \<open>
  The shape \<^verbatim>\<open>isGraphQLErrorResponse\<close> recognises: \<^verbatim>\<open>response.data.errors\<close> is an array,
  empty or not, and \<^verbatim>\<open>response.status\<close> is a number.
\<close>

lemma isGraphQLErrorResponse_shape:
  "isGraphQLErrorResponse error =
     (isArray (js_get (js_get (thrown_get error ''response'') ''data'') ''errors'')
      \<and> typeof_number (js_get (thrown_get error ''response'') ''status''))"
proof (cases "isArray (js_get (js_get (thrown_get error ''response'') ''data'') ''errors'')")
  case False
  then show ?thesis
    by (simp add: isGraphQLErrorResponse_def Let_def)
next
  case True
  have d: "truthy (js_get (thrown_get error ''response'') ''data'')
      \<and> typeof_object (js_get (thrown_get error ''response'') ''data'')"
    using True isArray_js_get by blast
  have r: "truthy (thrown_get error ''response'') \<and> typeof_object (thrown_get error ''response'')"
    using d by (cases "thrown_get error ''response''") auto
  have o: "thrown_is_object error"
  proof (cases error)
    case (ErrorInst e)
    then show ?thesis by simp
  next
    case (Thrown v)
    then show ?thesis using r by (cases v) auto
  qed
  show ?thesis
    using True d r o isArray_truthy by (simp add: isGraphQLErrorResponse_def Let_def)
qed

lemma unrecognised_unset:
  "\<not> isGraphQLErrorResponse error \<Longrightarrow>
     status (auth_error_of error) = Undefined \<and> response (auth_error_of error) = Undefined"
  by (simp add: auth_error_of_def)

lemma graphql_errors_failure:
  assumes "es \<noteq> []" and "js_get body ''errors'' = Arr es"
  shows "onLoginRequest False env tok gh (Inr \<lparr>resp_status = st, resp_data = body\<rparr>)
       = [Notify (createGraphQLError ''GraphQL Error'' body st (Arr es)),
          Put (LoginFailure \<lparr>name = ''Error'', message = ''GraphQL Error'', status = Num st,
                 response = Obj [(''errors'', Arr es)]\<rparr>)]"
proof -
  have b: "body \<noteq> Undefined \<and> body \<noteq> Null"
    using assms(2) by auto
  have thrown: "login_backend tok (Inr \<lparr>resp_status = st, resp_data = body\<rparr>)
      = Inl (ErrorInst (createGraphQLError ''GraphQL Error'' body st (Arr es)))"
    using assms b by (simp add: login_backend_def)
  have g: "isGraphQLErrorResponse (ErrorInst (createGraphQLError ''GraphQL Error'' body st (Arr es)))"
    by (simp add: isGraphQLErrorResponse_def createGraphQLError_def)
  show ?thesis
    using thrown g
    by (simp add: onLoginRequest_def login_catch_def auth_error_of_def createGraphQLError_def)
qed

lemma rejected_response_failure:
  assumes "es \<noteq> []" and "js_get body ''errors'' = Arr es"
    and "js_get (thrown_get rejected ''response'') ''data'' = body"
    and "js_get (thrown_get rejected ''response'') ''status'' = Num st"
  shows "onLoginRequest False env tok gh (Inl rejected)
       = [Notify (to_Error rejected),
          Put (LoginFailure \<lparr>name = err_name (to_Error rejected),
                 message = err_message (to_Error rejected), status = Num st,
                 response = body\<rparr>)]"
proof -
  have g: "isGraphQLErrorResponse rejected"
    using assms(2-4) by (simp add: isGraphQLErrorResponse_shape)
  show ?thesis
    using g assms(3,4)
    by (simp add: onLoginRequest_def login_backend_def login_catch_def auth_error_of_def)
qed

text \<open>
  C3, as stated, fails twice. For an HTTP 200 response with one GraphQL error the
  \<open>response\<close> of the \<^verbatim>\<open>AuthError\<close> is the object \<^verbatim>\<open>{errors: [...]}\<close>, and for an HTTP 401
  response with the same body, which \<^verbatim>\<open>axios.post\<close> rejects, it is the whole body: neither
  is the error list. And a rejection whose \<^verbatim>\<open>response.data.errors\<close> is the empty array, which
  is not of the claim's shape (a non-empty array), gets the status 500 all the same.
\<close>

theorem graphql_failure_counterexample:
  "map response (login_failures
       (onLoginRequest False (demo_env False 0 0 0) ''tok'' (Inr None) (Inr demo_error_response)))
     = [Obj [(''errors'', Arr demo_errors)]]
   \<and> map response (login_failures
       (onLoginRequest False (demo_env False 0 0 0) ''tok'' (Inr None) (Inr demo_error_response)))
     \<noteq> [Arr demo_errors]
   \<and> map response (login_failures
       (onLoginRequest False (demo_env False 0 0 0) ''tok'' (Inr None) (Inl demo_rejected_response)))
     = [Obj [(''data'', Null), (''errors'', Arr demo_errors)]]
   \<and> map response (login_failures
       (onLoginRequest False (demo_env False 0 0 0) ''tok'' (Inr None) (Inl demo_rejected_response)))
     \<noteq> [Arr demo_errors]
   \<and> elements (js_get (js_get (thrown_get demo_axios_error ''response'') ''data'') ''errors'') = []
   \<and> map status (login_failures
       (onLoginRequest False (demo_env False 0 0 0) ''tok'' (Inr None) (Inl demo_axios_error)))
     = [Num 500]"
  by (simp add: onLoginRequest_def login_backend_def login_catch_def auth_error_of_def
      isGraphQLErrorResponse_def createGraphQLError_def demo_error_response_def
      demo_error_body_def demo_rejected_response_def demo_errors_def demo_axios_error_def)

text \<open>
  C3, amended. Take a backend response whose \<open>errors\<close> is a non-empty array. However the
  error is thrown, the exchange notifies the crash reporter and puts one LOGIN_FAILURE
  whose \<^verbatim>\<open>AuthError\<close> has the HTTP status of the response as its status and a response whose
  \<open>errors\<close> is the error list. When \<^verbatim>\<open>axios.post\<close> resolves with the response, the saga
  throws the GraphQL error itself and the response of the \<^verbatim>\<open>AuthError\<close> is the object
  \<^verbatim>\<open>{errors: list}\<close>; when \<^verbatim>\<open>axios.post\<close> rejects with an error that carries the response (as
  it does for a status outside 2xx), the response of the \<^verbatim>\<open>AuthError\<close> is the whole body.
  For every thrown value that is not of the recognised shape, the status and the response
  of the normalized \<^verbatim>\<open>AuthError\<close> are unset; the recognised shape is: \<^verbatim>\<open>response.data.errors\<close>
  is an array (the empty one included) and \<^verbatim>\<open>response.status\<close> is a number.
\<close>

theorem graphql_failure_amended:
  "(es \<noteq> [] \<and> js_get body ''errors'' = Arr es \<longrightarrow>
      onLoginRequest False env tok gh (Inr \<lparr>resp_status = st, resp_data = body\<rparr>)
        = [Notify (createGraphQLError ''GraphQL Error'' body st (Arr es)),
           Put (LoginFailure \<lparr>name = ''Error'', message = ''GraphQL Error'', status = Num st,
                  response = Obj [(''errors'', Arr es)]\<rparr>)]
      \<and> failure_summary
            (onLoginRequest False env tok gh (Inr \<lparr>resp_status = st, resp_data = body\<rparr>))
          = [(Num st, Arr es)])
   \<and> (es \<noteq> [] \<and> js_get body ''errors'' = Arr es
        \<and> js_get (thrown_get rejected ''response'') ''data'' = body
        \<and> js_get (thrown_get rejected ''response'') ''status'' = Num st \<longrightarrow>
      onLoginRequest False env tok gh (Inl rejected)
        = [Notify (to_Error rejected),
           Put (LoginFailure \<lparr>name = err_name (to_Error rejected),
                  message = err_message (to_Error rejected), status = Num st,
                  response = body\<rparr>)]
      \<and> failure_summary (onLoginRequest False env tok gh (Inl rejected)) = [(Num st, Arr es)])
   \<and> (\<not> isGraphQLErrorResponse error \<longrightarrow>
        status (auth_error_of error) = Undefined \<and> response (auth_error_of error) = Undefined)
   \<and> isGraphQLErrorResponse error =
        (isArray (js_get (js_get (thrown_get error ''response'') ''data'') ''errors'')
         \<and> typeof_number (js_get (thrown_get error ''response'') ''status''))"
proof -
  have resolved: "es \<noteq> [] \<and> js_get body ''errors'' = Arr es \<longrightarrow>
      onLoginRequest False env tok gh (Inr \<lparr>resp_status = st, resp_data = body\<rparr>)
        = [Notify (createGraphQLError ''GraphQL Error'' body st (Arr es)),
           Put (LoginFailure \<lparr>name = ''Error'', message = ''GraphQL Error'', status = Num st,
                  response = Obj [(''errors'', Arr es)]\<rparr>)]
      \<and> failure_summary
            (onLoginRequest False env tok gh (Inr \<lparr>resp_status = st, resp_data = body\<rparr>))
          = [(Num st, Arr es)]"
  proof
    assume h: "es \<noteq> [] \<and> js_get body ''errors'' = Arr es"
    have effs: "onLoginRequest False env tok gh (Inr \<lparr>resp_status = st, resp_data = body\<rparr>)
        = [Notify (createGraphQLError ''GraphQL Error'' body st (Arr es)),
           Put (LoginFailure \<lparr>name = ''Error'', message = ''GraphQL Error'', status = Num st,
                  response = Obj [(''errors'', Arr es)]\<rparr>)]"
      using h graphql_errors_failure by blast
    show "onLoginRequest False env tok gh (Inr \<lparr>resp_status = st, resp_data = body\<rparr>)
        = [Notify (createGraphQLError ''GraphQL Error'' body st (Arr es)),
           Put (LoginFailure \<lparr>name = ''Error'', message = ''GraphQL Error'', status = Num st,
                  response = Obj [(''errors'', Arr es)]\<rparr>)]
      \<and> failure_summary
            (onLoginRequest False env tok gh (Inr \<lparr>resp_status = st, resp_data = body\<rparr>))
          = [(Num st, Arr es)]"
      by (simp add: effs failure_summary_def)
  qed
  have rejected: "es \<noteq> [] \<and> js_get body ''errors'' = Arr es
        \<and> js_get (thrown_get rejected ''response'') ''data'' = body
        \<and> js_get (thrown_get rejected ''response'') ''status'' = Num st \<longrightarrow>
      onLoginRequest False env tok gh (Inl rejected)
        = [Notify (to_Error rejected),
           Put (LoginFailure \<lparr>name = err_name (to_Error rejected),
                  message = err_message (to_Error rejected), status = Num st,
                  response = body\<rparr>)]
      \<and> failure_summary (onLoginRequest False env tok gh (Inl rejected)) = [(Num st, Arr es)]"
  proof
    assume h: "es \<noteq> [] \<and> js_get body ''errors'' = Arr es
        \<and> js_get (thrown_get rejected ''response'') ''data'' = body
        \<and> js_get (thrown_get rejected ''response'') ''status'' = Num st"
    have effs: "onLoginRequest False env tok gh (Inl rejected)
        = [Notify (to_Error rejected),
           Put (LoginFailure \<lparr>name = err_name (to_Error rejected),
                  message = err_message (to_Error rejected), status = Num st,
                  response = body\<rparr>)]"
      using h rejected_response_failure [of es body rejected st env tok gh] by blast
    show "onLoginRequest False env tok gh (Inl rejected)
        = [Notify (to_Error rejected),
           Put (LoginFailure \<lparr>name = err_name (to_Error rejected),
                  message = err_message (to_Error rejected), status = Num st,
                  response = body\<rparr>)]
      \<and> failure_summary (onLoginRequest False env tok gh (Inl rejected)) = [(Num st, Arr es)]"
      using h by (simp add: effs failure_summary_def)
  qed
  have unset: "\<not> isGraphQLErrorResponse error \<longrightarrow>
      status (auth_error_of error) = Undefined \<and> response (auth_error_of error) = Undefined"
    using unrecognised_unset by blast
  show ?thesis
    using resolved rejected unset isGraphQLErrorResponse_shape [of error] by blast
qed

theorem graphql_failure_amended_witness:
  "failure_summary
      (onLoginRequest False (demo_env False 0 0 0) ''tok'' (Inr None) (Inr demo_error_response))
     = [(Num 200, Arr demo_errors)]
   \<and> map response (login_failures
        (onLoginRequest False (demo_env False 0 0 0) ''tok'' (Inr None) (Inr demo_error_response)))
     = [Obj [(''errors'', Arr demo_errors)]]
   \<and> failure_summary
      (onLoginRequest False (demo_env False 0 0 0) ''tok'' (Inr None) (Inl demo_rejected_response))
     = [(Num 401, Arr demo_errors)]
   \<and> map response (login_failures
        (onLoginRequest False (demo_env False 0 0 0) ''tok'' (Inr None) (Inl demo_rejected_response)))
     = [demo_error_body]
   \<and> map name (login_failures
        (onLoginRequest False (demo_env False 0 0 0) ''tok'' (Inr None) (Inl demo_rejected_response)))
     = [''AxiosError'']
   \<and> status (auth_error_of (Thrown (Str ''offline''))) = Undefined
   \<and> response (auth_error_of (Thrown (Str ''offline''))) = Undefined"
proof -
  have es: "demo_errors \<noteq> [] \<and> js_get demo_error_body ''errors'' = Arr demo_errors"
    by (simp add: demo_errors_def demo_error_body_def)
  have rej: "js_get (thrown_get demo_rejected_response ''response'') ''data'' = demo_error_body
      \<and> js_get (thrown_get demo_rejected_response ''response'') ''status'' = Num 401"
    by (simp add: demo_rejected_response_def)
  have shape: "\<not> isGraphQLErrorResponse (Thrown (Str ''offline''))"
    by (simp add: isGraphQLErrorResponse_def)
  have nm: "err_name (to_Error demo_rejected_response) = ''AxiosError''"
    by (simp add: demo_rejected_response_def)
  have all: "onLoginRequest False (demo_env False 0 0 0) ''tok'' (Inr None)
        (Inr \<lparr>resp_status = 200, resp_data = demo_error_body\<rparr>)
      = [Notify (createGraphQLError ''GraphQL Error'' demo_error_body 200 (Arr demo_errors)),
         Put (LoginFailure \<lparr>name = ''Error'', message = ''GraphQL Error'', status = Num 200,
                response = Obj [(''errors'', Arr demo_errors)]\<rparr>)]
    \<and> failure_summary (onLoginRequest False (demo_env False 0 0 0) ''tok'' (Inr None)
        (Inr \<lparr>resp_status = 200, resp_data = demo_error_body\<rparr>)) = [(Num 200, Arr demo_errors)]
    \<and> onLoginRequest False (demo_env False 0 0 0) ''tok'' (Inr None) (Inl demo_rejected_response)
      = [Notify (to_Error demo_rejected_response),
         Put (LoginFailure \<lparr>name = err_name (to_Error demo_rejected_response),
                message = err_message (to_Error demo_rejected_response), status = Num 401,
                response = demo_error_body\<rparr>)]
    \<and> failure_summary (onLoginRequest False (demo_env False 0 0 0) ''tok'' (Inr None)
        (Inl demo_rejected_response)) = [(Num 401, Arr demo_errors)]
    \<and> status (auth_error_of (Thrown (Str ''offline''))) = Undefined
    \<and> response (auth_error_of (Thrown (Str ''offline''))) = Undefined"
    using es rej shape
      graphql_failure_amended [where es = demo_errors and body = demo_error_body
        and env = "demo_env False 0 0 0" and tok = "''tok''" and gh = "Inr None"
        and st = 200 and rejected = "Thrown Undefined" and error = "Thrown (Str ''offline'')"]
      graphql_failure_amended [where es = demo_errors and body = demo_error_body
        and env = "demo_env False 0 0 0" and tok = "''tok''" and gh = "Inr None"
        and st = 401 and rejected = demo_rejected_response
        and error = "Thrown (Str ''offline'')"]
    by blast
  show ?thesis
    using all nm by (simp add: demo_error_response_def failure_summary_def demo_error_body_def)
qed

section \<open>Properties of the event reactor\<close>

lemma unauthorized_logs_out:
  "status e = Num 401 \<Longrightarrow> onLoginFailure (Some e) = Inr [Put Logout]"
  by (simp add: onLoginFailure_def)

lemma no_tag_not_found:
  "\<not> list_ex tagged_unauthenticated es \<Longrightarrow> some_unauthenticated es \<noteq> Inr True"
  by (induction es) auto

lemma forbidden_stays_logged_in:
  assumes "status e = Num 403" and "js_get (response e) ''status'' \<noteq> Num 401"
    and "\<not> list_ex tagged_unauthenticated
           (elements (js_get (js_get (response e) ''data'') ''errors''))"
  shows "Put Logout \<notin> set (yielded (onLoginFailure (Some e)))"
  using assms no_tag_not_found [OF assms(3)]
  by (auto simp add: onLoginFailure_def split: sum.splits)

text \<open>
  The normalizer stores a GraphQL error list under \<^verbatim>\<open>response.errors\<close>, while the reactor
  looks for tags under \<^verbatim>\<open>response.data.errors\<close>: the failure that the exchange puts for an
  HTTP 200 response with an error tagged UNAUTHENTICATED does not log out.
\<close>

lemma tagged_exchange_failure_stays_logged_in:
  "onLoginFailure (Some
       \<lparr>name = ''Error'', message = ''GraphQL Error'', status = Num 200,
        response = Obj [(''errors'',
          Arr [Obj [(''extensions'', Obj [(''code'', Str ''UNAUTHENTICATED'')])]])]\<rparr>)
     = Inr []"
  by (simp add: onLoginFailure_def)

text \<open>
  C4. A LOGIN_FAILURE whose \<^verbatim>\<open>AuthError\<close> has status 401 makes the reactor put exactly one
  LOGOUT. One with status 403, whose response has no \<open>status\<close> 401 and no error tagged
  UNAUTHENTICATED among its \<^verbatim>\<open>data.errors\<close>, makes it put no LOGOUT.
\<close>

theorem login_failure_logout:
  "(status e = Num 401 \<longrightarrow> onLoginFailure (Some e) = Inr [Put Logout])
   \<and> (status e = Num 403 \<and> js_get (response e) ''status'' \<noteq> Num 401
        \<and> \<not> list_ex tagged_unauthenticated
              (elements (js_get (js_get (response e) ''data'') ''errors''))
      \<longrightarrow> Put Logout \<notin> set (yielded (onLoginFailure (Some e))))"
  using unauthorized_logs_out forbidden_stays_logged_in by blast

theorem login_failure_logout_witness:
  "onLoginFailure (Some \<lparr>name = ''Error'', message = ''GraphQL Error'', status = Num 401,
       response = Undefined\<rparr>) = Inr [Put Logout]
   \<and> Put Logout \<notin> set (yielded (onLoginFailure
       (Some \<lparr>name = ''Error'', message = ''GraphQL Error'', status = Num 403,
          response = Obj [(''status'', Num 403),
            (''data'', Obj [(''errors'', Arr [Obj [(''extensions'',
               Obj [(''code'', Str ''FORBIDDEN'')])]])])]\<rparr>)))"
  using
    login_failure_logout [of "\<lparr>name = ''Error'', message = ''GraphQL Error'', status = Num 401,
       response = Undefined\<rparr>"]
    login_failure_logout [of "\<lparr>name = ''Error'', message = ''GraphQL Error'', status = Num 403,
          response = Obj [(''status'', Num 403),
            (''data'', Obj [(''errors'', Arr [Obj [(''extensions'',
               Obj [(''code'', Str ''FORBIDDEN'')])]])])]\<rparr>"]
  by (simp add: tagged_unauthenticated_def)

section \<open>Sessions of local-only mode\<close>

lemma local_success_only:
  "Put (LoginSuccess tok' u) \<in> set (onLoginRequest True env tok gh post) \<Longrightarrow>
     \<exists>d. gh = Inr (Some d) \<and> tok' = tok \<and> u = local_user True env tok d"
  by (auto simp add: onLoginRequest_def login_local_def login_catch_def
      split: sum.splits option.splits)

lemma local_user_trialEndAt:
  "js_get (js_get (local_user lo env tok d) ''plan'') ''trialEndAt'' = Undefined"
  by (simp add: local_user_def)

lemma local_user_lastLoginAt:
  "js_get (local_user lo env tok d) ''lastLoginAt'' = Str (to_iso env (clk env 220))"
  by (simp add: local_user_def)

lemma no_trialEndAt_no_trial_branch:
  "js_get (plan st) ''trialEndAt'' = Undefined \<Longrightarrow>
     \<not> trial_just_expired env' st \<and> \<not> trial_ends_soon env' st
     \<and> sleep_step env' st = [Delay (1000 * 60 * 60)]"
  by (simp add: trial_just_expired_def trial_ends_soon_def sleep_step_def)

text \<open>
  C10. In local-only mode every LOGIN_SUCCESS that the exchange puts carries the request's
  token and a user whose plan has no \<open>trialEndAt\<close> and whose \<open>lastLoginAt\<close> is the ISO string
  of the clock read on line 220. For every snapshot whose plan is the plan of that user,
  and every clock, neither the branch of the just expired trial nor the branch of the
  trial ending within the hour is taken: the final step sleeps one hour.
\<close>

theorem local_session_no_trial:
  assumes "Put (LoginSuccess tok' u) \<in> set (onLoginRequest True env tok gh post)"
  shows "js_get (js_get u ''plan'') ''trialEndAt'' = Undefined
       \<and> js_get u ''lastLoginAt'' = Str (to_iso env (clk env 220))
       \<and> (\<forall>env' st. plan st = js_get u ''plan'' \<longrightarrow>
            \<not> trial_just_expired env' st \<and> \<not> trial_ends_soon env' st
            \<and> sleep_step env' st = [Delay (1000 * 60 * 60)])"
proof -
  obtain d where u: "u = local_user True env tok d"
    using assms local_success_only by blast
  have p: "js_get (js_get u ''plan'') ''trialEndAt'' = Undefined"
    using u local_user_trialEndAt by simp
  have l: "js_get u ''lastLoginAt'' = Str (to_iso env (clk env 220))"
    using u local_user_lastLoginAt by simp
  show ?thesis
    using p l no_trialEndAt_no_trial_branch by simp
qed

theorem local_session_no_trial_witness:
  "onLoginRequest True (demo_env False 1000 0 0) ''pat'' (Inr (Some demo_gh_data)) (Inr demo_error_response)
     = [Put (LoginSuccess ''pat'' (local_user True (demo_env False 1000 0 0) ''pat'' demo_gh_data))]
   \<and> js_get (local_user True (demo_env False 1000 0 0) ''pat'' demo_gh_data) ''lastLoginAt''
       = Str ''iso''
   \<and> sleep_step (demo_env False 5000 1000 1000)
       \<lparr>appToken = Some ''pat'', isLogged = True,
        user = local_user True (demo_env False 1000 0 0) ''pat'' demo_gh_data,
        plan = js_get (local_user True (demo_env False 1000 0 0) ''pat'' demo_gh_data) ''plan''\<rparr>
       = [Delay 3600000]"
proof -
  have put: "onLoginRequest True (demo_env False 1000 0 0) ''pat'' (Inr (Some demo_gh_data))
        (Inr demo_error_response)
      = [Put (LoginSuccess ''pat'' (local_user True (demo_env False 1000 0 0) ''pat'' demo_gh_data))]"
    by (simp add: onLoginRequest_def login_local_def)
  then have mem: "Put (LoginSuccess ''pat''
        (local_user True (demo_env False 1000 0 0) ''pat'' demo_gh_data))
      \<in> set (onLoginRequest True (demo_env False 1000 0 0) ''pat'' (Inr (Some demo_gh_data))
          (Inr demo_error_response))"
    by simp
  show ?thesis
    using put local_session_no_trial [OF mem] by (simp add: demo_env_def)
qed

section \<open>Properties of the credential validator\<close>

subsection \<open>Parsing the scopes\<close>

lemma split_commas_nonempty: "split_commas s \<noteq> []"
  by (induction s) (auto split: list.splits)

lemma comma_not_space: "\<not> is_space (CHR '','')"
  by (simp add: is_space_def)

lemma split_commas_strip:
  "split_commas (filter (\<lambda>c. \<not> is_space c) s)
     = map (filter (\<lambda>c. \<not> is_space c)) (split_commas s)"
proof (induction s)
  case Nil
  then show ?case by simp
next
  case (Cons c cs)
  show ?case
  proof (cases "c = CHR '',''")
    case True
    then show ?thesis using Cons comma_not_space by simp
  next
    case False
    obtain w ws where w: "split_commas cs = w # ws"
      using split_commas_nonempty by (cases "split_commas cs") auto
    show ?thesis using Cons False w by (cases "is_space c") auto
  qed
qed

lemma parse_scopes_refines: "parse_scopes h = parse_scopes_spec h"
  by (simp add: parse_scopes_def parse_scopes_spec_def split_commas_strip)

subsection \<open>Decimal rendering is injective\<close>

lemma show_nat_small: "n < 10 \<Longrightarrow> show_nat n = [digit_char n]"
  by (subst show_nat.simps) simp

lemma show_nat_large:
  "\<not> n < 10 \<Longrightarrow> show_nat n = show_nat (n div 10) @ [digit_char (n mod 10)]"
  by (subst show_nat.simps) simp

lemma digit_char_code: "d < 10 \<Longrightarrow> (of_char (digit_char d) :: nat) = 48 + d"
proof -
  assume "d < 10"
  then have "d \<in> {0, 1, 2, 3, 4, 5, 6, 7, 8, 9}" by auto
  then show ?thesis by (auto simp add: digit_char_def)
qed

lemma digit_char_inj:
  assumes "a < 10" and "b < 10" and "digit_char a = digit_char b"
  shows "a = b"
proof -
  have "48 + a = (of_char (digit_char a) :: nat)"
    using assms(1) by (simp only: digit_char_code)
  also have "\<dots> = of_char (digit_char b)"
    by (simp only: assms(3))
  also have "\<dots> = 48 + b"
    using assms(2) by (simp only: digit_char_code)
  finally show ?thesis by simp
qed

lemma digit_char_not_minus: "d < 10 \<Longrightarrow> digit_char d \<noteq> CHR ''-''"
proof
  assume d: "d < 10" and m: "digit_char d = CHR ''-''"
  have "(of_char (digit_char d) :: nat) = 45"
    by (simp only: m) simp
  then show False
    using digit_char_code [OF d] by simp
qed

lemma show_nat_nonempty: "show_nat n \<noteq> []"
  by (cases "n < 10") (simp_all add: show_nat_small show_nat_large)

lemma show_nat_inj: "show_nat a = show_nat b \<Longrightarrow> a = b"
proof (induction a arbitrary: b rule: show_nat.induct)
  case (1 n)
  show ?case
  proof (cases "n < 10")
    case True
    show ?thesis
    proof (cases "b < 10")
      case t: True
      then show ?thesis using True 1(2) digit_char_inj by (simp add: show_nat_small)
    next
      case False
      then show ?thesis
        using True 1(2) show_nat_nonempty [of "b div 10"]
        by (simp add: show_nat_small show_nat_large)
    qed
  next
    case False
    show ?thesis
    proof (cases "b < 10")
      case True
      then show ?thesis
        using False 1(2) show_nat_nonempty [of "n div 10"]
        by (simp add: show_nat_small show_nat_large)
    next
      case f: False
      have "show_nat (n div 10) = show_nat (b div 10)
          \<and> digit_char (n mod 10) = digit_char (b mod 10)"
        using False f 1(2) by (simp add: show_nat_large)
      then have "n div 10 = b div 10 \<and> n mod 10 = b mod 10"
        using 1(1) [OF False] digit_char_inj [of "n mod 10" "b mod 10"] by simp
      then show ?thesis by (metis div_mult_mod_eq)
    qed
  qed
qed

lemma show_nat_head: "\<exists>d rest. d < 10 \<and> show_nat n = digit_char d # rest"
proof (induction n rule: show_nat.induct)
  case (1 n)
  show ?case
  proof (cases "n < 10")
    case True
    then show ?thesis by (auto simp add: show_nat_small)
  next
    case False
    then obtain d rest where "d < 10" "show_nat (n div 10) = digit_char d # rest"
      using 1 by blast
    then show ?thesis using False by (auto simp add: show_nat_large)
  qed
qed

lemma show_nat_not_minus: "show_nat n \<noteq> CHR ''-'' # s"
proof
  assume m: "show_nat n = CHR ''-'' # s"
  obtain d rest where d: "d < 10" and h: "show_nat n = digit_char d # rest"
    using show_nat_head by blast
  have "digit_char d = CHR ''-''"
    using m h by simp
  then show False
    using d digit_char_not_minus by blast
qed

lemma show_int_inj: "show_int a = show_int b \<Longrightarrow> a = b"
proof -
  assume eq: "show_int a = show_int b"
  show ?thesis
  proof (cases "a < 0")
    case True
    show ?thesis
    proof (cases "b < 0")
      case t: True
      then have "nat (- a) = nat (- b)" using eq True show_nat_inj by (simp add: show_int_def)
      then show ?thesis using True t by simp
    next
      case False
      then show ?thesis
        using eq True show_nat_not_minus [of "nat b" "show_nat (nat (- a))"]
        by (simp add: show_int_def)
    qed
  next
    case False
    show ?thesis
    proof (cases "b < 0")
      case True
      then show ?thesis
        using eq False show_nat_not_minus [of "nat a" "show_nat (nat (- b))"]
        by (simp add: show_int_def)
    next
      case f: False
      then have "nat a = nat b" using eq False show_nat_inj by (simp add: show_int_def)
      then show ?thesis using False f by simp
    qed
  qed
qed

lemma id_mismatch_iff: "l \<noteq> 0 \<Longrightarrow> id_mismatch (Some l) rid = (rid \<noteq> l)"
  using show_int_inj by (auto simp add: id_mismatch_def)

subsection \<open>The scope check\<close>

lemma validate_rejects_no_dispatch:
  assumes "validate_token lid lname r = Inl e"
  shows "\<not> list_ex is_dispatch (loginWithGitHubPersonalAccessToken lo env lid lname prompted (Inr r) post)"
  using assms
  by (simp add: loginWithGitHubPersonalAccessToken_def pat_failed_def handleAuthError_def
      split: option.splits)

lemma missing_repo_rejected:
  assumes "parse_scopes (ir_scopes r) \<noteq> []" and "''repo'' \<notin> set (parse_scopes (ir_scopes r))"
  shows "\<exists>e. validate_token lid lname r = Inl e"
  using assms by (simp add: validate_token_def split: option.splits)

lemma missing_repo_message_given:
  assumes "parse_scopes (ir_scopes r) \<noteq> []" and "''repo'' \<notin> set (parse_scopes (ir_scopes r))"
    and "ir_id r = Some rid" and "rid \<noteq> 0" and "ir_login r = Some rl" and "rl \<noteq> []"
    and "\<not> id_mismatch lid rid"
  shows "validate_token lid lname r = Inl (ErrorInst (new_Error missing_repo_message))"
  using assms by (simp add: validate_token_def)

lemma empty_scopes_pass:
  assumes "parse_scopes (ir_scopes r) = []"
    and "ir_id r = Some rid" and "rid \<noteq> 0" and "ir_login r = Some rl" and "rl \<noteq> []"
    and "\<not> id_mismatch lid rid"
  shows "validate_token lid lname r = Inr (rl, [])"
  using assms by (simp add: validate_token_def)

text \<open>
  C7. Take the scopes header parsed in the specification's order (split on commas, strip
  whitespace, drop empty entries). When the result is non-empty and lacks \<open>repo\<close>, the
  validation throws, the helper dispatches nothing, and, when the checks before this one
  pass (an id and a login are there and no other account is logged in), the error is the
  one about private repositories whose message says that the token stays on the device.
  When the result is empty and the checks before pass, the validation does not throw.
\<close>

theorem missing_repo_scope_rejected:
  "(parse_scopes_spec (ir_scopes r) \<noteq> [] \<and> ''repo'' \<notin> set (parse_scopes_spec (ir_scopes r)) \<longrightarrow>
      (\<exists>e. validate_token lid lname r = Inl e)
      \<and> \<not> list_ex is_dispatch
            (loginWithGitHubPersonalAccessToken lo env lid lname prompted (Inr r) post)
      \<and> (ir_id r = Some rid \<and> rid \<noteq> 0 \<and> ir_login r = Some rl \<and> rl \<noteq> []
           \<and> \<not> id_mismatch lid rid \<longrightarrow>
         validate_token lid lname r = Inl (ErrorInst (new_Error missing_repo_message))))
   \<and> (parse_scopes_spec (ir_scopes r) = [] \<and> ir_id r = Some rid \<and> rid \<noteq> 0
        \<and> ir_login r = Some rl \<and> rl \<noteq> [] \<and> \<not> id_mismatch lid rid \<longrightarrow>
      validate_token lid lname r = Inr (rl, []))"
proof -
  have same: "parse_scopes_spec (ir_scopes r) = parse_scopes (ir_scopes r)"
    by (simp add: parse_scopes_refines)
  show ?thesis
    unfolding same
    using missing_repo_rejected [of r lid lname] missing_repo_message_given [of r rid rl lid lname]
      empty_scopes_pass [of r rid rl lid lname]
      validate_rejects_no_dispatch [of lid lname r _ lo env prompted post]
    by blast
qed

theorem missing_repo_scope_rejected_witness:
  "validate_token (Some 6) (Some ''bob'') (demo_identity ''read:user, notifications'')
     = Inl (ErrorInst (new_Error missing_repo_message))
   \<and> \<not> list_ex is_dispatch
        (loginWithGitHubPersonalAccessToken True (demo_env False 0 0 0) (Some 6) (Some ''bob'')
           (Some ''ghp_token'') (Inr (demo_identity ''read:user, notifications''))
           (Inl (Thrown Undefined)))
   \<and> validate_token (Some 6) (Some ''bob'') (demo_identity '' , '') = Inr (''bob'', [])"
proof -
  have a: "parse_scopes_spec (ir_scopes (demo_identity ''read:user, notifications''))
      = [''read:user'', ''notifications'']"
    by (simp add: parse_scopes_spec_def demo_identity_def is_space_def)
  have b: "parse_scopes_spec (ir_scopes (demo_identity '' , '')) = []"
    by (simp add: parse_scopes_spec_def demo_identity_def is_space_def)
  have c: "\<not> id_mismatch (Some 6) 6"
    by (simp add: id_mismatch_def)
  show ?thesis
    using a b c
      missing_repo_scope_rejected [where r = "demo_identity ''read:user, notifications''"
        and lid = "Some 6" and lname = "Some ''bob''" and rid = 6 and rl = "''bob''"
        and lo = True and env = "demo_env False 0 0 0" and prompted = "Some ''ghp_token''"
        and post = "Inl (Thrown Undefined)"]
      missing_repo_scope_rejected [where r = "demo_identity '' , ''"
        and lid = "Some 6" and lname = "Some ''bob''" and rid = 6 and rl = "''bob''"]
    by (simp add: demo_identity_def)
qed

subsection \<open>The identity check\<close>

text \<open>
  C8. An account is logged in (its id is truthy) and the identity endpoint returns an id
  and a login. When the ids differ the validation throws an error whose message names the
  two logins if the returned login is not the logged-in one, and the two ids otherwise.
  When the ids are equal the check passes: the validation ends as it does when no account
  is logged in.
\<close>

theorem different_account_rejected:
  assumes "lid \<noteq> 0"
    and "ir_id r = Some rid" and "rid \<noteq> 0" and "ir_login r = Some rl" and "rl \<noteq> []"
  shows "(rid \<noteq> lid \<and> Some rl \<noteq> lname \<longrightarrow>
            validate_token (Some lid) lname r = Inl (ErrorInst (new_Error
              (''This Personal Access Token seems to be from a different user (''
               @ rl @ '' instead of '' @ name_text lname @ '').''))))
       \<and> (rid \<noteq> lid \<and> Some rl = lname \<longrightarrow>
            validate_token (Some lid) lname r = Inl (ErrorInst (new_Error
              (''This Personal Access Token seems to be from a different user (ID ''
               @ show_int rid @ '' instead of '' @ show_int lid @ '').''))))
       \<and> (rid = lid \<longrightarrow> validate_token (Some lid) lname r = validate_token None lname r)"
proof (cases "rid = lid")
  case True
  have "\<not> id_mismatch (Some lid) rid"
    using True assms(1) id_mismatch_iff by simp
  moreover have "\<not> id_mismatch None rid"
    by (simp add: id_mismatch_def)
  ultimately have "validate_token (Some lid) lname r = validate_token None lname r"
    using assms(2-5) by (simp add: validate_token_def)
  then show ?thesis
    using True by simp
next
  case False
  have m: "id_mismatch (Some lid) rid"
    using False assms(1) id_mismatch_iff by simp
  have "validate_token (Some lid) lname r
      = Inl (ErrorInst (new_Error (different_user_message rid rl lid lname)))"
    using assms(2-5) m by (simp add: validate_token_def)
  then show ?thesis
    using False by (simp add: different_user_message_def)
qed

theorem different_account_rejected_witness:
  "validate_token (Some 5) (Some ''alice'') (demo_identity ''repo'')
     = Inl (ErrorInst (new_Error
         ''This Personal Access Token seems to be from a different user (bob instead of alice).''))
   \<and> validate_token (Some 5) (Some ''bob'') (demo_identity ''repo'')
     = Inl (ErrorInst (new_Error
         ''This Personal Access Token seems to be from a different user (ID 6 instead of 5).''))
   \<and> validate_token (Some 6) (Some ''bob'') (demo_identity ''repo'') = Inr (''bob'', [''repo''])"
proof -
  have pass: "validate_token None (Some ''bob'') (demo_identity ''repo'') = Inr (''bob'', [''repo''])"
    by (simp add: validate_token_def demo_identity_def id_mismatch_def parse_scopes_def
        is_space_def)
  have five: "show_int 5 = ''5''" and six: "show_int 6 = ''6''"
    by (simp_all add: show_int_def show_nat.simps digit_char_def)
  show ?thesis
    using pass five six
      different_account_rejected [of 5 "demo_identity ''repo''" 6 "''bob''" "Some ''alice''"]
      different_account_rejected [of 5 "demo_identity ''repo''" 6 "''bob''" "Some ''bob''"]
      different_account_rejected [of 6 "demo_identity ''repo''" 6 "''bob''" "Some ''bob''"]
    by (simp add: demo_identity_def)
qed

subsection \<open>Reporting failures\<close>

text \<open>
  C9, as stated, fails: a cancelled prompt (the error \<open>Canceled\<close>) and a \<open>Timeout\<close> are
  reported to the crash reporter, since \<^verbatim>\<open>bugsnag.notify\<close> is called before the message is
  compared.
\<close>

theorem canceled_reported_counterexample:
  "loginWithGitHubPersonalAccessToken True (demo_env False 0 0 0) None None None
      (Inl (Thrown Undefined)) (Inl (Thrown Undefined))
     = [TrackEvent ''engagement'' ''login'',
        NotifyWith (new_Error ''Canceled'') ''Personal access token login failed'',
        SetIsExecutingOAuth False, SetPATLoadingState None]
   \<and> filter is_notify (handleAuthError (ErrorInst (new_Error ''Timeout'')) ''OAuth execution failed'')
     = [NotifyWith (new_Error ''Timeout'') ''OAuth execution failed'']"
  by (simp add: loginWithGitHubPersonalAccessToken_def pat_failed_def handleAuthError_def
      new_Error_def)

text \<open>
  C9, amended. A caught failure shows a dialog exactly when its message is neither
  \<open>Canceled\<close> nor \<open>Timeout\<close>; the dialog is the only one, with the title \<open>Login failed\<close> and
  the message of the error. Every failure, \<open>Canceled\<close> and \<open>Timeout\<close> included, is reported
  once to the crash reporter, with the description of the call.
\<close>

theorem auth_error_dialog_and_report:
  "list_ex is_dialog (handleAuthError error description)
     = (err_message (helper_Error error) \<noteq> ''Canceled''
        \<and> err_message (helper_Error error) \<noteq> ''Timeout'')
   \<and> filter is_dialog (handleAuthError error description)
     = (if err_message (helper_Error error) = ''Canceled''
           \<or> err_message (helper_Error error) = ''Timeout''
        then [] else [DialogShow ''Login failed'' (err_message (helper_Error error))])
   \<and> filter is_notify (handleAuthError error description)
     = [NotifyWith (helper_Error error) description]"
  by (simp add: handleAuthError_def)

theorem auth_error_dialog_and_report_witness:
  "filter is_dialog (handleAuthError (Thrown (Str ''No app token'')) ''OAuth execution failed'')
     = [DialogShow ''Login failed'' ''No app token'']
   \<and> filter is_dialog (handleAuthError (Thrown (Str ''Timeout'')) ''OAuth execution failed'') = []
   \<and> filter is_notify (handleAuthError (Thrown (Str ''Timeout'')) ''OAuth execution failed'')
     = [NotifyWith (new_Error ''Timeout'') ''OAuth execution failed'']"
  using auth_error_dialog_and_report [of "Thrown (Str ''No app token'')" "''OAuth execution failed''"]
    auth_error_dialog_and_report [of "Thrown (Str ''Timeout'')" "''OAuth execution failed''"]
  by (simp add: new_Error_def)

end
